theory Spec2Isabelle
  imports Complex_Main
begin

section \<open>Request data\<close>

text \<open>
  The validator of \<^verbatim>\<open>src/lib/request/validation/validator.ts\<close> inspects the values
  that a decoded request bucket holds. A value is \<^verbatim>\<open>undefined\<close> (also what reading a key
  gives that the object neither has nor inherits), \<^verbatim>\<open>null\<close>, a boolean, a finite number,
  a string, an array, a plain object whose own properties are listed in order, or a
  built-in function, named: reading \<^verbatim>\<open>data["toString"]\<close> from a plain object gives the
  function every object inherits. Strings are lists of 8-bit characters (the code units
  below 256).
\<close>

datatype jsval =
    JUndefined
  | JNull
  | JBool bool
  | JNum rat
  | JStr string
  | JArr "jsval list"
  | JObj "(string \<times> jsval) list"
  | JFunction string

type_synonym obj = "(string \<times> jsval) list"

text \<open>
  What a \<^verbatim>\<open>throw\<close> (or a rejected promise) carries: the runtime's own \<^verbatim>\<open>TypeError\<close>,
  or a value thrown by a rule supplied by the caller.
\<close>

datatype exn = TypeError | Thrown jsval

datatype DataOriginType = Query | Body | Params

datatype FieldType =
    TString | TObject | TArray | TBool | TDate
  | TTimestamp | TDouble | TInt | TLong | TDecimal

text \<open>\<^verbatim>\<open>type: FieldType | [FieldType, string]\<close> and \<^verbatim>\<open>required?: boolean | string\<close>.\<close>

datatype type_decl = Scalar FieldType | Pair FieldType string

datatype required_decl = RequiredAbsent | RequiredBool bool | RequiredMessage string

text \<open>
  A rule's functions take the value, the field's schema entry and the whole data object.
  A HOL record cannot hold functions over itself, so the schema entry reaches a rule as its
  \<open>type\<close> and \<open>required\<close> parts (\<open>FieldDecl\<close>); the whole entry adds the rule list.
  A rule function returns \<open>Inl\<close> when it throws or its promise rejects, and the predicate's
  \<open>Inr b\<close> is the truthiness of what it returns or resolves to. A rule is a function of
  its three arguments: it changes neither the data nor the schema.
\<close>

record FieldDecl =
  type :: type_decl
  required :: required_decl

datatype message_decl =
    NoMessage
  | StaticMessage string
  | MessageFn "jsval \<Rightarrow> FieldDecl \<Rightarrow> obj \<Rightarrow> exn + string"

record RuleType =
  rule_message :: message_decl
  validator :: "jsval \<Rightarrow> FieldDecl \<Rightarrow> obj \<Rightarrow> exn + bool"

record FieldValidationOptions = FieldDecl +
  rules :: "RuleType list option"

text \<open>The schema in the order of \<^verbatim>\<open>Object.keys(options)\<close>.\<close>

type_synonym ValidateOptions = "(string \<times> FieldValidationOptions) list"

record ValidationError =
  origin :: DataOriginType
  field :: string
  ftype :: FieldType
  val :: jsval
  message :: "string list"

record ValidationResult =
  summary :: string
  errors :: "ValidationError list"

text \<open>
  The request's three buckets. \<^verbatim>\<open>request[origin]\<close> is \<open>None\<close> when the bucket is
  \<^verbatim>\<open>undefined\<close> (a body that no middleware has decoded) or \<^verbatim>\<open>null\<close>, and otherwise the
  own properties of a plain object.
\<close>

record Request =
  query :: "obj option"
  body :: "obj option"
  params :: "obj option"

section \<open>The host's primitives\<close>

text \<open>
  \<^verbatim>\<open>new Date(value)\<close> parses strings in a way the language leaves to the implementation,
  a number prints by the runtime's shortest round-trip algorithm, and a built-in function
  prints as the runtime chooses. These are parameters: \<open>newDate h v\<close> is \<open>Inl\<close> when the
  constructor throws and otherwise \<open>Inr b\<close> with \<open>b\<close> the value of
  \<^verbatim>\<open>isNaN(date.getTime())\<close>; \<open>callOwnMethods h ps\<close> is what converting an object to a string
  gives when its own \<^verbatim>\<open>toString\<close> or \<^verbatim>\<open>valueOf\<close> is a function and is called.
\<close>

record host =
  newDate :: "jsval \<Rightarrow> exn + bool"
  numberToString :: "rat \<Rightarrow> string"
  functionToString :: "string \<Rightarrow> string"
  callOwnMethods :: "(string \<times> jsval) list \<Rightarrow> exn + string"

fun join :: "string \<Rightarrow> string list \<Rightarrow> string" where
  "join sep [] = []"
| "join sep [s] = s"
| "join sep (s # t # ss) = s @ sep @ join sep (t # ss)"

text \<open>
  The language's \<^verbatim>\<open>ToString\<close>. An array joins its elements with a comma, \<^verbatim>\<open>undefined\<close> and
  \<^verbatim>\<open>null\<close> elements printing as nothing. A plain object prints through the inherited
  \<^verbatim>\<open>toString\<close>, unless an own property of that name hides it. When the own property is
  not callable, \<^verbatim>\<open>valueOf\<close> is tried: the inherited one gives no primitive, an own one that
  is not callable is passed over, and the conversion throws.
\<close>

fun isFunction :: "jsval \<Rightarrow> bool" where
  "isFunction (JFunction name) = True"
| "isFunction v = False"

fun ToString :: "host \<Rightarrow> jsval \<Rightarrow> exn + string"
  and elementStrings :: "host \<Rightarrow> jsval list \<Rightarrow> exn + string list" where
  "ToString h JUndefined = Inr ''undefined''"
| "ToString h JNull = Inr ''null''"
| "ToString h (JBool b) = Inr (if b then ''true'' else ''false'')"
| "ToString h (JNum n) = Inr (numberToString h n)"
| "ToString h (JStr s) = Inr s"
| "ToString h (JArr xs) =
     (case elementStrings h xs of Inl e \<Rightarrow> Inl e | Inr ss \<Rightarrow> Inr (join '','' ss))"
| "ToString h (JObj ps) =
     (case map_of ps ''toString'' of
        None \<Rightarrow> Inr ''[object Object]''
      | Some m \<Rightarrow>
          if isFunction m \<or> (case map_of ps ''valueOf'' of Some w \<Rightarrow> isFunction w | None \<Rightarrow> False)
          then callOwnMethods h ps
          else Inl TypeError)"
| "ToString h (JFunction name) = Inr (functionToString h name)"
| "elementStrings h [] = Inr []"
| "elementStrings h (x # xs) =
     (case (if x = JUndefined \<or> x = JNull then Inr [] else ToString h x) of
        Inl e \<Rightarrow> Inl e
      | Inr s \<Rightarrow> (case elementStrings h xs of Inl e \<Rightarrow> Inl e | Inr ss \<Rightarrow> Inr (s # ss)))"

text \<open>
  \<^verbatim>\<open>parseInt\<close> and \<^verbatim>\<open>parseFloat\<close> convert their argument to a string, skip leading white
  space and read the longest numeric prefix. The validator drops the number they return,
  so the model keeps only whether it is the not-a-number sentinel.
\<close>

datatype parsed = NaN | Numeric

definition isWhiteSpace :: "char \<Rightarrow> bool" where
  "isWhiteSpace c = (c \<in> set [CHR '' '', CHR 0x09, CHR 0x0A, CHR 0x0B, CHR 0x0C, CHR 0x0D, CHR 0xA0])"

definition isDigit :: "char \<Rightarrow> bool" where
  "isDigit c = (c \<in> set ''0123456789'')"

definition isHexDigit :: "char \<Rightarrow> bool" where
  "isHexDigit c = (c \<in> set ''0123456789abcdefABCDEF'')"

definition stripSign :: "string \<Rightarrow> string" where
  "stripSign s = (case s of c # cs \<Rightarrow> if c = CHR ''+'' \<or> c = CHR ''-'' then cs else s | [] \<Rightarrow> s)"

definition parseIntString :: "string \<Rightarrow> parsed" where
  "parseIntString s =
     (let t = stripSign (dropWhile isWhiteSpace s) in
      case t of
        c # x # cs \<Rightarrow>
          if c = CHR ''0'' \<and> (x = CHR ''x'' \<or> x = CHR ''X'')
          then (case cs of d # _ \<Rightarrow> if isHexDigit d then Numeric else NaN | [] \<Rightarrow> NaN)
          else if isDigit c then Numeric else NaN
      | [c] \<Rightarrow> if isDigit c then Numeric else NaN
      | [] \<Rightarrow> NaN)"

definition parseFloatString :: "string \<Rightarrow> parsed" where
  "parseFloatString s =
     (let t = stripSign (dropWhile isWhiteSpace s) in
      if take 8 t = ''Infinity'' then Numeric
      else case t of
        c # cs \<Rightarrow>
          if isDigit c then Numeric
          else if c = CHR ''.'' then (case cs of d # _ \<Rightarrow> if isDigit d then Numeric else NaN | [] \<Rightarrow> NaN)
          else NaN
      | [] \<Rightarrow> NaN)"

definition parseInt :: "host \<Rightarrow> jsval \<Rightarrow> exn + parsed" where
  "parseInt h v = (case ToString h v of Inl e \<Rightarrow> Inl e | Inr s \<Rightarrow> Inr (parseIntString s))"

definition parseFloat :: "host \<Rightarrow> jsval \<Rightarrow> exn + parsed" where
  "parseFloat h v = (case ToString h v of Inl e \<Rightarrow> Inl e | Inr s \<Rightarrow> Inr (parseFloatString s))"

text \<open>
  \<^verbatim>\<open>typeof\<close>, \<^verbatim>\<open>Array.isArray\<close> and \<^verbatim>\<open>String.prototype.toLowerCase\<close>. The validator
  compares a lower-cased string with \<^verbatim>\<open>"true"\<close> and \<^verbatim>\<open>"false"\<close> only, and the letters of
  these words are the lower case of their capitals alone, so \<open>toLowerChar\<close> maps the
  letters A to Z and leaves every other character.
\<close>

fun typeof :: "jsval \<Rightarrow> string" where
  "typeof JUndefined = ''undefined''"
| "typeof JNull = ''object''"
| "typeof (JBool b) = ''boolean''"
| "typeof (JNum n) = ''number''"
| "typeof (JStr s) = ''string''"
| "typeof (JArr xs) = ''object''"
| "typeof (JObj ps) = ''object''"
| "typeof (JFunction name) = ''function''"

fun isArray :: "jsval \<Rightarrow> bool" where
  "isArray (JArr xs) = True"
| "isArray v = False"

definition toLowerChar :: "char \<Rightarrow> char" where
  "toLowerChar c =
     (case map_of (zip ''ABCDEFGHIJKLMNOPQRSTUVWXYZ'' ''abcdefghijklmnopqrstuvwxyz'') c of
        None \<Rightarrow> c
      | Some l \<Rightarrow> l)"

definition toLowerCase :: "string \<Rightarrow> string" where
  "toLowerCase s = map toLowerChar s"

section \<open>The validator\<close>

text \<open>
  \<open>addError\<close> scans the errors for the first entry of the same field and pushes the new
  messages onto it; with no such entry the error is pushed at the end.
\<close>

fun addError :: "ValidationError \<Rightarrow> ValidationError list \<Rightarrow> ValidationError list" where
  "addError error [] = [error]"
| "addError error (element # rest) =
     (if field error = field element
      then element\<lparr>message := message element @ message error\<rparr> # rest
      else element # addError error rest)"

text \<open>
  The state of a run: the errors collected so far, and the rule predicates called so far
  with the field, the rule's position in its list and the three arguments it was given.
\<close>

datatype call = ValidatorCall string nat jsval FieldDecl obj

record vstate =
  errs :: "ValidationError list"
  calls :: "call list"

definition fieldTypeName :: "FieldType \<Rightarrow> string" where
  "fieldTypeName t =
     (case t of
        TString \<Rightarrow> ''string'' | TObject \<Rightarrow> ''object'' | TArray \<Rightarrow> ''array''
      | TBool \<Rightarrow> ''bool'' | TDate \<Rightarrow> ''date'' | TTimestamp \<Rightarrow> ''timestamp''
      | TDouble \<Rightarrow> ''double'' | TInt \<Rightarrow> ''int'' | TLong \<Rightarrow> ''long''
      | TDecimal \<Rightarrow> ''decimal'')"

definition fieldType :: "('a FieldDecl_scheme) \<Rightarrow> FieldType" where
  "fieldType def = (case type def of Pair t m \<Rightarrow> t | Scalar t \<Rightarrow> t)"

definition declOf :: "FieldValidationOptions \<Rightarrow> FieldDecl" where
  "declOf def = \<lparr>type = type def, required = required def\<rparr>"

text \<open>
  \<^verbatim>\<open>data[field]\<close> on a bucket that is a plain object: the own property of that name; with
  no own property, the member that every plain object inherits under that name (a built-in
  function, or for \<^verbatim>\<open>__proto__\<close> the prototype itself); and \<^verbatim>\<open>undefined\<close> otherwise.
\<close>

definition objectPrototypeMethods :: "string list" where
  "objectPrototypeMethods =
     [''constructor'', ''hasOwnProperty'', ''isPrototypeOf'', ''propertyIsEnumerable'',
      ''toLocaleString'', ''toString'', ''valueOf'', ''__defineGetter__'', ''__defineSetter__'',
      ''__lookupGetter__'', ''__lookupSetter__'']"

definition objectPrototype :: jsval where
  "objectPrototype = JObj (map (\<lambda>name. (name, JFunction name)) objectPrototypeMethods)"

definition getField :: "obj \<Rightarrow> string \<Rightarrow> jsval" where
  "getField data fld =
     (case map_of data fld of
        Some v \<Rightarrow> v
      | None \<Rightarrow>
          if fld \<in> set objectPrototypeMethods then JFunction fld
          else if fld = ''__proto__'' then objectPrototype
          else JUndefined)"

definition isRequired :: "('a FieldDecl_scheme) \<Rightarrow> bool" where
  "isRequired def =
     (case required def of
        RequiredBool b \<Rightarrow> b
      | RequiredMessage s \<Rightarrow> True
      | RequiredAbsent \<Rightarrow> False)"

definition valueFilled :: "jsval \<Rightarrow> bool" where
  "valueFilled v =
     (if v \<noteq> JNull \<and> v \<noteq> JUndefined
      then (case v of JStr s \<Rightarrow> length s \<noteq> 0 | JArr xs \<Rightarrow> length xs \<noteq> 0 | _ \<Rightarrow> True)
      else False)"

definition isEmpty :: "jsval \<Rightarrow> bool" where
  "isEmpty v = (v = JNull \<or> v = JUndefined)"

definition requiredMessage :: "string \<Rightarrow> ('a FieldDecl_scheme) \<Rightarrow> string" where
  "requiredMessage fld def =
     (case required def of
        RequiredMessage s \<Rightarrow> s
      | _ \<Rightarrow> ''The field `'' @ fld @ ''` is required'')"

definition typeErrorMessage :: "string \<Rightarrow> ('a FieldDecl_scheme) \<Rightarrow> string" where
  "typeErrorMessage fld def =
     (case type def of
        Pair t m \<Rightarrow> m
      | Scalar t \<Rightarrow> ''The value of `'' @ fld @ ''` must be a valid '' @ fieldTypeName (fieldType def))"

text \<open>
  The switch over the field type: \<open>True\<close> where the branch calls \<open>addError\<close>. A
  \<^verbatim>\<open>try\<close> block's \<^verbatim>\<open>catch\<close> runs on every \<open>Inl\<close>; for a date it also runs on the
  branch's own throw when the time value is not a number.
\<close>

definition typeMismatch :: "host \<Rightarrow> DataOriginType \<Rightarrow> FieldType \<Rightarrow> jsval \<Rightarrow> bool" where
  "typeMismatch h orig t v =
     (case t of
        TString \<Rightarrow> typeof v \<noteq> ''string''
      | TArray \<Rightarrow> \<not> isArray v
      | TBool \<Rightarrow>
          (case orig of
             Body \<Rightarrow> typeof v \<noteq> ''boolean''
           | _ \<Rightarrow>
               (case v of
                  JStr s \<Rightarrow> length s \<noteq> 0 \<and> toLowerCase s \<notin> set [''true'', ''false'']
                | _ \<Rightarrow> False))
      | TDate \<Rightarrow> (case newDate h v of Inl e \<Rightarrow> True | Inr nan \<Rightarrow> nan)
      | TDecimal \<Rightarrow> (case parseFloat h v of Inl e \<Rightarrow> True | Inr n \<Rightarrow> False)
      | TDouble \<Rightarrow> (case parseFloat h v of Inl e \<Rightarrow> True | Inr n \<Rightarrow> False)
      | TInt \<Rightarrow> (case parseInt h v of Inl e \<Rightarrow> True | Inr n \<Rightarrow> False)
      | TLong \<Rightarrow> (case parseInt h v of Inl e \<Rightarrow> True | Inr n \<Rightarrow> False)
      | TTimestamp \<Rightarrow> (case parseInt h v of Inl e \<Rightarrow> True | Inr n \<Rightarrow> False)
      | TObject \<Rightarrow> typeof v \<noteq> ''object'')"

definition mkError ::
  "DataOriginType \<Rightarrow> string \<Rightarrow> FieldValidationOptions \<Rightarrow> jsval \<Rightarrow> string \<Rightarrow> ValidationError" where
  "mkError orig fld def v m =
     \<lparr>origin = orig, field = fld, ftype = fieldType def, val = v, message = [m]\<rparr>"

text \<open>The block headed "Required Rule validation".\<close>

definition requiredValidation ::
  "DataOriginType \<Rightarrow> string \<Rightarrow> FieldValidationOptions \<Rightarrow> jsval \<Rightarrow> vstate \<Rightarrow> vstate" where
  "requiredValidation orig fld def v st =
     (if isRequired def
      then (if \<not> valueFilled v
            then st\<lparr>errs := addError (mkError orig fld def v (requiredMessage fld def)) (errs st)\<rparr>
            else st)
      else st)"

text \<open>The block headed "Type validation".\<close>

definition typeValidation ::
  "host \<Rightarrow> DataOriginType \<Rightarrow> string \<Rightarrow> FieldValidationOptions \<Rightarrow> jsval \<Rightarrow> vstate \<Rightarrow> vstate" where
  "typeValidation h orig fld def v st =
     (if \<not> isEmpty v
      then (if typeMismatch h orig (fieldType def) v
            then st\<lparr>errs := addError (mkError orig fld def v (typeErrorMessage fld def)) (errs st)\<rparr>
            else st)
      else st)"

text \<open>
  The message of a failed rule: \<^verbatim>\<open>rule.message\<close> when it is truthy (a string that is not
  empty, or a function, which is called with the predicate's arguments), else the default.
\<close>

definition ruleErrorMessage ::
  "RuleType \<Rightarrow> string \<Rightarrow> jsval \<Rightarrow> FieldDecl \<Rightarrow> obj \<Rightarrow> exn + string" where
  "ruleErrorMessage rule fld v d data =
     (case rule_message rule of
        StaticMessage s \<Rightarrow> if s \<noteq> [] then Inr s else Inr (''`'' @ fld @ ''` value is not valid'')
      | MessageFn f \<Rightarrow> f v d data
      | NoMessage \<Rightarrow> Inr (''`'' @ fld @ ''` value is not valid''))"

text \<open>The loop over \<^verbatim>\<open>def.rules ?? []\<close>; \<open>i\<close> counts the rules already visited.\<close>

fun rulesLoop ::
  "DataOriginType \<Rightarrow> string \<Rightarrow> FieldValidationOptions \<Rightarrow> jsval \<Rightarrow> obj \<Rightarrow> nat \<Rightarrow> RuleType list
     \<Rightarrow> vstate \<Rightarrow> exn + vstate" where
  "rulesLoop orig fld def v data i [] st = Inr st"
| "rulesLoop orig fld def v data i (rule # rest) st =
     (let st1 = st\<lparr>calls := calls st @ [ValidatorCall fld i v (declOf def) data]\<rparr> in
      case validator rule v (declOf def) data of
        Inl e \<Rightarrow> Inl e
      | Inr ok \<Rightarrow>
          if \<not> ok
          then (case ruleErrorMessage rule fld v (declOf def) data of
                  Inl e \<Rightarrow> Inl e
                | Inr errorMessage \<Rightarrow>
                    rulesLoop orig fld def v data (Suc i) rest
                      (st1\<lparr>errs := addError (mkError orig fld def v errorMessage) (errs st1)\<rparr>))
          else rulesLoop orig fld def v data (Suc i) rest st1)"

definition rulesOf :: "FieldValidationOptions \<Rightarrow> RuleType list" where
  "rulesOf def = (case rules def of None \<Rightarrow> [] | Some rs \<Rightarrow> rs)"

definition rulesValidation ::
  "DataOriginType \<Rightarrow> string \<Rightarrow> FieldValidationOptions \<Rightarrow> jsval \<Rightarrow> obj \<Rightarrow> vstate \<Rightarrow> exn + vstate" where
  "rulesValidation orig fld def v data st =
     (if isRequired def \<or> \<not> isEmpty v
      then rulesLoop orig fld def v data 0 (rulesOf def) st
      else Inr st)"

text \<open>One pass of the loop over the schema's keys, on a bucket that is an object.\<close>

definition validateField ::
  "host \<Rightarrow> DataOriginType \<Rightarrow> obj \<Rightarrow> string \<Rightarrow> FieldValidationOptions \<Rightarrow> vstate \<Rightarrow> exn + vstate" where
  "validateField h orig data fld def st =
     (let v = getField data fld in
      rulesValidation orig fld def v data
        (typeValidation h orig fld def v (requiredValidation orig fld def v st)))"

text \<open>
  The loop over the schema's keys. Reading \<^verbatim>\<open>data[field]\<close> from a bucket that is
  \<^verbatim>\<open>undefined\<close> throws the runtime's \<^verbatim>\<open>TypeError\<close>.
\<close>

fun browseFields ::
  "host \<Rightarrow> DataOriginType \<Rightarrow> obj option \<Rightarrow> ValidateOptions \<Rightarrow> vstate \<Rightarrow> exn + vstate" where
  "browseFields h orig data [] st = Inr st"
| "browseFields h orig data ((fld, def) # rest) st =
     (case data of
        None \<Rightarrow> Inl TypeError
      | Some d \<Rightarrow>
          (case validateField h orig d fld def st of
             Inl e \<Rightarrow> Inl e
           | Inr st' \<Rightarrow> browseFields h orig data rest st'))"

definition bucket :: "Request \<Rightarrow> DataOriginType \<Rightarrow> obj option" where
  "bucket request orig = (case orig of Query \<Rightarrow> query request | Body \<Rightarrow> body request | Params \<Rightarrow> params request)"

definition run :: "host \<Rightarrow> Request \<Rightarrow> DataOriginType \<Rightarrow> ValidateOptions \<Rightarrow> exn + vstate" where
  "run h request orig options = browseFields h orig (bucket request orig) options \<lparr>errs = [], calls = []\<rparr>"

definition toResult :: "vstate \<Rightarrow> ValidationResult" where
  "toResult st =
     \<lparr>summary = join ''; '' (map (\<lambda>error. join ''; '' (message error)) (errs st)),
      errors = errs st\<rparr>"

definition validate :: "host \<Rightarrow> Request \<Rightarrow> DataOriginType \<Rightarrow> ValidateOptions \<Rightarrow> exn + ValidationResult" where
  "validate h request orig options =
     (case run h request orig options of Inl e \<Rightarrow> Inl e | Inr st \<Rightarrow> Inr (toResult st))"

section \<open>What the checks of one field amount to\<close>

text \<open>
  The specification describes a field's checks by the messages they produce: the
  required-failure message, then the type-mismatch message, then the messages of the failed
  rules in their declared order. The next definitions say this in its words; the lemmas
  below compare them with the loop above.
\<close>

definition requiredMessages :: "string \<Rightarrow> FieldValidationOptions \<Rightarrow> jsval \<Rightarrow> string list" where
  "requiredMessages fld def v =
     (if isRequired def \<and> \<not> valueFilled v then [requiredMessage fld def] else [])"

definition typeMessages ::
  "host \<Rightarrow> DataOriginType \<Rightarrow> string \<Rightarrow> FieldValidationOptions \<Rightarrow> jsval \<Rightarrow> string list" where
  "typeMessages h orig fld def v =
     (if \<not> isEmpty v \<and> typeMismatch h orig (fieldType def) v then [typeErrorMessage fld def] else [])"

fun ruleMessages :: "string \<Rightarrow> jsval \<Rightarrow> FieldDecl \<Rightarrow> obj \<Rightarrow> RuleType list \<Rightarrow> exn + string list" where
  "ruleMessages fld v d data [] = Inr []"
| "ruleMessages fld v d data (rule # rest) =
     (case validator rule v d data of
        Inl e \<Rightarrow> Inl e
      | Inr ok \<Rightarrow>
          if ok then ruleMessages fld v d data rest
          else (case ruleErrorMessage rule fld v d data of
                  Inl e \<Rightarrow> Inl e
                | Inr m \<Rightarrow>
                    (case ruleMessages fld v d data rest of
                       Inl e \<Rightarrow> Inl e
                     | Inr ms \<Rightarrow> Inr (m # ms))))"

definition rulesRun :: "FieldValidationOptions \<Rightarrow> jsval \<Rightarrow> bool" where
  "rulesRun def v = (isRequired def \<or> \<not> isEmpty v)"

definition fieldMessages ::
  "host \<Rightarrow> DataOriginType \<Rightarrow> obj \<Rightarrow> string \<Rightarrow> FieldValidationOptions \<Rightarrow> exn + string list" where
  "fieldMessages h orig data fld def =
     (let v = getField data fld in
      case (if rulesRun def v then ruleMessages fld v (declOf def) data (rulesOf def) else Inr []) of
        Inl e \<Rightarrow> Inl e
      | Inr rms \<Rightarrow> Inr (requiredMessages fld def v @ typeMessages h orig fld def v @ rms))"

definition fieldErrors ::
  "host \<Rightarrow> DataOriginType \<Rightarrow> obj \<Rightarrow> string \<times> FieldValidationOptions \<Rightarrow> ValidationError list" where
  "fieldErrors h orig data entry =
     (case fieldMessages h orig data (fst entry) (snd entry) of
        Inl e \<Rightarrow> []
      | Inr ms \<Rightarrow>
          if ms = [] then []
          else [\<lparr>origin = orig, field = fst entry, ftype = fieldType (snd entry),
                 val = getField data (fst entry), message = ms\<rparr>])"

text \<open>The predicate calls of \<open>n\<close> rules visited from position \<open>i\<close> on.\<close>

definition callLog :: "string \<Rightarrow> jsval \<Rightarrow> FieldDecl \<Rightarrow> obj \<Rightarrow> nat \<Rightarrow> nat \<Rightarrow> call list" where
  "callLog fld v d data i n = map (\<lambda>j. ValidatorCall fld j v d data) [i..<i + n]"

text \<open>Calling \<open>addError\<close> once for each message of a list, in order.\<close>

definition addMessages ::
  "DataOriginType \<Rightarrow> string \<Rightarrow> FieldValidationOptions \<Rightarrow> jsval \<Rightarrow> string list
     \<Rightarrow> ValidationError list \<Rightarrow> ValidationError list" where
  "addMessages orig fld def v ms es = foldl (\<lambda>acc m. addError (mkError orig fld def v m) acc) es ms"

section \<open>The specification's condition on a field\<close>
















section \<open>Sample hosts, requests and schemas\<close>

definition exampleHost :: host where
  "exampleHost =
     \<lparr>newDate = (\<lambda>v. case v of
                        JStr s \<Rightarrow> Inr (s \<noteq> ''2020-01-01'')
                      | JObj ps \<Rightarrow> if ''toString'' \<in> set (map fst ps) then Inl TypeError else Inr True
                      | JArr xs \<Rightarrow> Inr True
                      | JFunction name \<Rightarrow> Inr True
                      | _ \<Rightarrow> Inr False),
      numberToString = (\<lambda>n. ''0''),
      functionToString = (\<lambda>name. ''function '' @ name @ ''() { [native code] }''),
      callOwnMethods = (\<lambda>ps. Inr ''[object Object]'')\<rparr>"

definition requestWithBody :: "obj \<Rightarrow> Request" where
  "requestWithBody data = \<lparr>query = Some [], body = Some data, params = Some []\<rparr>"

definition requestWithQuery :: "obj \<Rightarrow> Request" where
  "requestWithQuery data = \<lparr>query = Some data, body = None, params = Some []\<rparr>"

definition plainField :: "FieldType \<Rightarrow> FieldValidationOptions" where
  "plainField t = \<lparr>type = Scalar t, required = RequiredAbsent, rules = None\<rparr>"

definition requiredField :: "FieldType \<Rightarrow> FieldValidationOptions" where
  "requiredField t = \<lparr>type = Scalar t, required = RequiredBool True, rules = None\<rparr>"

text \<open>A rule that accepts the strings starting with a given character.\<close>

definition startsWithRule :: "char \<Rightarrow> RuleType" where
  "startsWithRule c =
     \<lparr>rule_message = NoMessage,
      validator = (\<lambda>v d data. Inr (case v of JStr s \<Rightarrow> take 1 s = [c] | _ \<Rightarrow> False))\<rparr>"

text \<open>A rule that rejects every value, with a static message.\<close>

definition rejectRule :: "string \<Rightarrow> RuleType" where
  "rejectRule m = \<lparr>rule_message = StaticMessage m, validator = (\<lambda>v d data. Inr False)\<rparr>"

text \<open>A rule that rejects every value and whose message producer throws.\<close>

definition brokenMessageRule :: RuleType where
  "brokenMessageRule =
     \<lparr>rule_message = MessageFn (\<lambda>v d data. Inl (Thrown (JStr ''boom''))),
      validator = (\<lambda>v d data. Inr False)\<rparr>"

text \<open>The schema \<^verbatim>\<open>{ email: { type: "string", required: true, rules: [startsWith("a")] } }\<close>.\<close>

definition emailSchema :: ValidateOptions where
  "emailSchema =
     [(''email'', \<lparr>type = Scalar TString, required = RequiredBool True,
                  rules = Some [startsWithRule CHR ''a'']\<rparr>)]"

text \<open>A required array with three rules, the first and the last rejecting every value.\<close>

definition tagsField :: FieldValidationOptions where
  "tagsField =
     \<lparr>type = Scalar TArray, required = RequiredBool True,
      rules = Some [rejectRule ''too short'', startsWithRule CHR ''a'', rejectRule ''too long'']\<rparr>"

text \<open>Two fields: the array above and an optional integer.\<close>

definition tagsSchema :: ValidateOptions where
  "tagsSchema = [(''tags'', tagsField), (''age'', plainField TInt)]"

text \<open>An optional field with one rule that rejects every value.\<close>

definition optionalField :: "FieldType \<Rightarrow> FieldValidationOptions" where
  "optionalField t =
     \<lparr>type = Scalar t, required = RequiredAbsent, rules = Some [rejectRule ''too short'']\<rparr>"

text \<open>An optional string whose only rule has a throwing message producer.\<close>

definition brokenField :: FieldValidationOptions where
  "brokenField = \<lparr>type = Scalar TString, required = RequiredAbsent, rules = Some [brokenMessageRule]\<rparr>"

text \<open>One optional field of each of five types.\<close>

definition typedSchema :: ValidateOptions where
  "typedSchema =
     [(''name'', plainField TString), (''tags'', plainField TArray), (''when'', plainField TDate),
      (''meta'', plainField TObject), (''active'', plainField TBool)]"

text \<open>A rule that passes when the entry it is given declares a required array.\<close>

definition entryRule :: RuleType where
  "entryRule =
     \<lparr>rule_message = NoMessage,
      validator = (\<lambda>v d data. Inr (type d = Scalar TArray \<and> required d = RequiredBool True))\<rparr>"

text \<open>A rule that passes when the data holds the same value under \<^verbatim>\<open>confirm\<close>.\<close>

definition confirmRule :: RuleType where
  "confirmRule =
     \<lparr>rule_message = StaticMessage ''not confirmed'',
      validator = (\<lambda>v d data. Inr (map_of data ''confirm'' = Some v))\<rparr>"

definition checkedField :: FieldValidationOptions where
  "checkedField =
     \<lparr>type = Scalar TArray, required = RequiredBool True,
      rules = Some [rejectRule ''too short'', entryRule, confirmRule, rejectRule ''too long'']\<rparr>"

text \<open>An optional string with two rules: the first one's message producer throws.\<close>

definition lateField :: FieldValidationOptions where
  "lateField =
     \<lparr>type = Scalar TString, required = RequiredAbsent,
      rules = Some [brokenMessageRule, rejectRule ''late'']\<rparr>"

section \<open>The error list\<close>

lemmas model_defs =
  validate_def run_def bucket_def toResult_def validateField_def getField_def
  objectPrototypeMethods_def objectPrototype_def
  requiredValidation_def typeValidation_def rulesValidation_def rulesOf_def
  isRequired_def valueFilled_def isEmpty_def mkError_def requiredMessage_def
  typeErrorMessage_def fieldType_def fieldTypeName_def typeMismatch_def declOf_def
  ruleErrorMessage_def parseInt_def parseFloat_def toLowerCase_def toLowerChar_def Let_def

lemmas sample_defs =
  exampleHost_def requestWithBody_def requestWithQuery_def plainField_def requiredField_def
  startsWithRule_def rejectRule_def brokenMessageRule_def emailSchema_def tagsField_def tagsSchema_def
  optionalField_def brokenField_def typedSchema_def entryRule_def confirmRule_def
  checkedField_def lateField_def


lemma addError_fresh: "field e \<notin> set (map field es) \<Longrightarrow> addError e es = es @ [e]"
  by (induction es) auto

lemma addError_last:
  "field e = field x \<Longrightarrow> field x \<notin> set (map field es) \<Longrightarrow>
   addError e (es @ [x]) = es @ [x\<lparr>message := message x @ message e\<rparr>]"
  by (induction es) auto

lemma map_field_addError:
  "map field (addError e es) = (if field e \<in> set (map field es) then map field es else map field es @ [field e])"
  by (induction es) auto

lemma fields_addError: "field ` set (addError e es) = insert (field e) (field ` set es)"
  by (induction es) auto

lemma addMessages_Nil [simp]: "addMessages orig fld def v [] es = es"
  by (simp add: addMessages_def)

lemma addMessages_Cons [simp]:
  "addMessages orig fld def v (m # ms) es = addMessages orig fld def v ms (addError (mkError orig fld def v m) es)"
  by (simp add: addMessages_def)

lemma addMessages_append:
  "addMessages orig fld def v (ms @ ns) es = addMessages orig fld def v ns (addMessages orig fld def v ms es)"
  by (simp add: addMessages_def)

lemma addMessages_onto_last:
  "field x = fld \<Longrightarrow> fld \<notin> set (map field es) \<Longrightarrow>
   addMessages orig fld def v ms (es @ [x]) = es @ [x\<lparr>message := message x @ ms\<rparr>]"
proof (induction ms arbitrary: x)
  case Nil
  then show ?case by simp
next
  case (Cons m ms)
  have "addError (mkError orig fld def v m) (es @ [x]) = es @ [x\<lparr>message := message x @ [m]\<rparr>]"
    using Cons.prems addError_last [of "mkError orig fld def v m" x es] by (simp add: mkError_def)
  then show ?case using Cons.IH [of "x\<lparr>message := message x @ [m]\<rparr>"] Cons.prems by simp
qed

lemma addMessages_fresh:
  assumes "fld \<notin> set (map field es)"
  shows "addMessages orig fld def v ms es =
         es @ (if ms = [] then []
               else [\<lparr>origin = orig, field = fld, ftype = fieldType def, val = v, message = ms\<rparr>])"
proof (cases ms)
  case Nil
  then show ?thesis by simp
next
  case (Cons m ns)
  have "addError (mkError orig fld def v m) es = es @ [mkError orig fld def v m]"
    using assms by (simp add: addError_fresh mkError_def)
  then show ?thesis
    using Cons assms addMessages_onto_last [of "mkError orig fld def v m" fld es orig "def" v ns]
    by (simp add: mkError_def)
qed


lemma map_field_addMessages:
  "map field (addMessages orig fld def v ms es) =
   (if ms = [] \<or> fld \<in> set (map field es) then map field es else map field es @ [fld])"
proof (induction ms arbitrary: es)
  case Nil
  then show ?case by simp
next
  case (Cons m ms)
  then show ?case by (simp add: map_field_addError fields_addError mkError_def)
qed

section \<open>The loop and the specification's description agree\<close>

lemma rulesLoop_eq:
  "rulesLoop orig fld def v data i rs st =
   (case ruleMessages fld v (declOf def) data rs of
      Inl e \<Rightarrow> Inl e
    | Inr ms \<Rightarrow> Inr (st\<lparr>errs := addMessages orig fld def v ms (errs st),
                       calls := calls st @ callLog fld v (declOf def) data i (length rs)\<rparr>))"
proof (induction rs arbitrary: i st)
  case Nil
  then show ?case by (simp add: callLog_def)
next
  case (Cons r rs)
  have log: "\<And>n. ValidatorCall fld i v (declOf def) data # callLog fld v (declOf def) data (Suc i) n
                = callLog fld v (declOf def) data i (Suc n)"
    by (simp add: callLog_def upt_rec)
  show ?case
    by (simp add: Cons.IH Let_def log split: sum.splits)
qed

lemma requiredValidation_eq:
  "requiredValidation orig fld def v st =
   st\<lparr>errs := addMessages orig fld def v (requiredMessages fld def v) (errs st)\<rparr>"
  by (simp add: requiredValidation_def requiredMessages_def)

lemma typeValidation_eq:
  "typeValidation h orig fld def v st =
   st\<lparr>errs := addMessages orig fld def v (typeMessages h orig fld def v) (errs st)\<rparr>"
  by (simp add: typeValidation_def typeMessages_def)

lemma validateField_eq:
  "validateField h orig data fld def st =
   (case fieldMessages h orig data fld def of
      Inl e \<Rightarrow> Inl e
    | Inr ms \<Rightarrow>
        Inr (st\<lparr>errs := addMessages orig fld def (getField data fld) ms (errs st),
                calls := calls st @
                  (if rulesRun def (getField data fld)
                   then callLog fld (getField data fld) (declOf def) data 0 (length (rulesOf def))
                   else [])\<rparr>))"
  by (simp add: validateField_def fieldMessages_def rulesValidation_def rulesRun_def rulesLoop_eq
      requiredValidation_eq typeValidation_eq addMessages_append Let_def split: sum.splits)


lemma browseFields_None: "browseFields h orig None options st = (if options = [] then Inr st else Inl TypeError)"
  by (cases options) auto

lemma browseFields_distinct_fields:
  "browseFields h orig data options st = Inr st' \<Longrightarrow> distinct (map field (errs st)) \<Longrightarrow>
   distinct (map field (errs st'))"
proof (induction options arbitrary: st)
  case Nil
  then show ?case by simp
next
  case (Cons entry options)
  obtain fld "def" where entry: "entry = (fld, def)" by (cases entry)
  from Cons.prems(1) entry obtain d st1 where d: "data = Some d"
    and st1: "validateField h orig d fld def st = Inr st1"
    and rest: "browseFields h orig data options st1 = Inr st'"
    by (auto split: option.splits sum.splits)
  from st1 obtain ms where "errs st1 = addMessages orig fld def (getField d fld) ms (errs st)"
    by (auto simp: validateField_eq split: sum.splits)
  with Cons.prems(2) have "distinct (map field (errs st1))"
    by (simp add: map_field_addMessages)
  with Cons.IH rest show ?case by blast
qed

lemma browseFields_errs:
  "browseFields h orig (Some d) options st = Inr st' \<Longrightarrow> distinct (map fst options) \<Longrightarrow>
   set (map fst options) \<inter> set (map field (errs st)) = {} \<Longrightarrow>
   errs st' = errs st @ concat (map (fieldErrors h orig d) options)"
proof (induction options arbitrary: st)
  case Nil
  then show ?case by simp
next
  case (Cons entry options)
  obtain fld "def" where entry: "entry = (fld, def)" by (cases entry)
  from Cons.prems(1) entry obtain st1 where st1: "validateField h orig d fld def st = Inr st1"
    and rest: "browseFields h orig (Some d) options st1 = Inr st'"
    by (auto split: sum.splits)
  from st1 obtain ms where ms: "fieldMessages h orig d fld def = Inr ms"
    and e1: "errs st1 = addMessages orig fld def (getField d fld) ms (errs st)"
    by (auto simp: validateField_eq split: sum.splits)
  have fresh: "fld \<notin> set (map field (errs st))"
    using Cons.prems(3) entry by auto
  have e1': "errs st1 = errs st @ fieldErrors h orig d entry"
    using e1 ms entry addMessages_fresh [OF fresh, of orig "def" "getField d fld" ms]
    by (simp add: fieldErrors_def)
  have "set (map field (fieldErrors h orig d entry)) \<subseteq> {fld}"
    using entry by (auto simp: fieldErrors_def split: sum.splits if_splits)
  then have disj: "set (map fst options) \<inter> set (map field (errs st1)) = {}"
    using Cons.prems(2,3) entry e1' by auto
  have "errs st' = errs st1 @ concat (map (fieldErrors h orig d) options)"
    using Cons.IH [OF rest _ disj] Cons.prems(2) by simp
  then show ?case using e1' by simp
qed


section \<open>The required check\<close>

text \<open>
  Claim C9. For the schema \<^verbatim>\<open>{ name: { type: "string", required: true } }\<close> and the empty
  data object, \<open>validate\<close> returns exactly one error, for the field \<^verbatim>\<open>name\<close>, with the one
  message "The field `name` is required". In general the required check adds an error
  exactly when the field is required and its value is not filled; the message is the
  string given as \<^verbatim>\<open>required\<close> when it is a string and the default otherwise; and changing
  the declared type changes neither whether the check fires nor its message.
\<close>

theorem required_check:
  "validate h (requestWithBody []) Body [(''name'', requiredField TString)] =
     Inr \<lparr>summary = ''The field `name` is required'',
          errors = [\<lparr>origin = Body, field = ''name'', ftype = TString, val = JUndefined,
                     message = [''The field `name` is required'']\<rparr>]\<rparr>
   \<and> requiredValidation orig fld def v st =
       (if isRequired def \<and> \<not> valueFilled v
        then st\<lparr>errs := addError
               \<lparr>origin = orig, field = fld, ftype = fieldType def, val = v,
                message = [case required def of
                             RequiredMessage s \<Rightarrow> s
                           | _ \<Rightarrow> ''The field `'' @ fld @ ''` is required'']\<rparr> (errs st)\<rparr>
        else st)
   \<and> isRequired (def\<lparr>type := t\<rparr>) = isRequired def
   \<and> requiredMessages fld (def\<lparr>type := t\<rparr>) v = requiredMessages fld def v"
  by (simp add: model_defs sample_defs requiredMessages_def)

theorem required_check_witness:
  "requiredValidation Query ''email''
     \<lparr>type = Pair TInt ''not a number'', required = RequiredMessage ''email is mandatory'', rules = None\<rparr>
     (JStr '''') \<lparr>errs = [], calls = []\<rparr> =
   \<lparr>errs = [\<lparr>origin = Query, field = ''email'', ftype = TInt, val = JStr '''',
              message = [''email is mandatory'']\<rparr>], calls = []\<rparr>"
  using required_check [of exampleHost Query "''email''"
      "\<lparr>type = Pair TInt ''not a number'', required = RequiredMessage ''email is mandatory'', rules = None\<rparr>"
      "JStr ''''" "\<lparr>errs = [], calls = []\<rparr>" "Scalar TString"]
  by (simp add: model_defs)

section \<open>The type check\<close>

lemma length_messages_addError:
  "length (concat (map message (addError e es))) = length (concat (map message es)) + length (message e)"
  by (induction es) auto

lemma addError_neq: "message e \<noteq> [] \<Longrightarrow> addError e es \<noteq> es"
proof
  assume m: "message e \<noteq> []" and eq: "addError e es = es"
  have "length (concat (map message (addError e es))) = length (concat (map message es)) + length (message e)"
    by (rule length_messages_addError)
  with eq m show False by simp
qed

lemma record_errs_neq: "message e \<noteq> [] \<Longrightarrow> st\<lparr>errs := addError e (errs st)\<rparr> \<noteq> st"
proof
  assume m: "message e \<noteq> []" and eq: "st\<lparr>errs := addError e (errs st)\<rparr> = st"
  from eq have "errs (st\<lparr>errs := addError e (errs st)\<rparr>) = errs st" by simp
  then have "addError e (errs st) = errs st" by simp
  with addError_neq [OF m] show False by blast
qed

text \<open>
  Claim C3. For the schema \<^verbatim>\<open>{ age: { type: "int" } }\<close> and the data
  \<^verbatim>\<open>{ age: "abc" }\<close> under origin \<^verbatim>\<open>body\<close>, \<open>validate\<close> records no error: the
  integer parse of \<^verbatim>\<open>"abc"\<close> returns the not-a-number sentinel and does not throw. For
  each of the types int, long, timestamp, double and decimal the type check reports a
  mismatch exactly when the parse call throws, so no string value, numeric or not, gives a
  type error for these types.
\<close>

theorem numeric_types_lenient:
  "validate h (requestWithBody [(''age'', JStr ''abc'')]) Body [(''age'', plainField TInt)] =
     Inr \<lparr>summary = [], errors = []\<rparr>
   \<and> parseInt h (JStr ''abc'') = Inr NaN
   \<and> parseFloat h (JStr ''abc'') = Inr NaN
   \<and> (typeMismatch h orig TInt v \<longleftrightarrow> (\<exists>e. parseInt h v = Inl e))
   \<and> (typeMismatch h orig TLong v \<longleftrightarrow> (\<exists>e. parseInt h v = Inl e))
   \<and> (typeMismatch h orig TTimestamp v \<longleftrightarrow> (\<exists>e. parseInt h v = Inl e))
   \<and> (typeMismatch h orig TDouble v \<longleftrightarrow> (\<exists>e. parseFloat h v = Inl e))
   \<and> (typeMismatch h orig TDecimal v \<longleftrightarrow> (\<exists>e. parseFloat h v = Inl e))
   \<and> (fieldType def \<in> {TInt, TLong, TTimestamp, TDouble, TDecimal} \<longrightarrow>
        typeValidation h orig fld def (JStr s) st = st)"
proof -
  have run: "validate h (requestWithBody [(''age'', JStr ''abc'')]) Body [(''age'', plainField TInt)] =
     Inr \<lparr>summary = [], errors = []\<rparr>"
    by (simp add: model_defs sample_defs)
  have nan: "parseInt h (JStr ''abc'') = Inr NaN" "parseFloat h (JStr ''abc'') = Inr NaN"
    by (simp_all add: parseInt_def parseFloat_def parseIntString_def parseFloatString_def
        stripSign_def isWhiteSpace_def isDigit_def)
  have mism: "typeMismatch h orig TInt v \<longleftrightarrow> (\<exists>e. parseInt h v = Inl e)"
    "typeMismatch h orig TLong v \<longleftrightarrow> (\<exists>e. parseInt h v = Inl e)"
    "typeMismatch h orig TTimestamp v \<longleftrightarrow> (\<exists>e. parseInt h v = Inl e)"
    "typeMismatch h orig TDouble v \<longleftrightarrow> (\<exists>e. parseFloat h v = Inl e)"
    "typeMismatch h orig TDecimal v \<longleftrightarrow> (\<exists>e. parseFloat h v = Inl e)"
    by (auto simp: typeMismatch_def split: sum.splits)
  have str: "fieldType def \<in> {TInt, TLong, TTimestamp, TDouble, TDecimal} \<longrightarrow>
        typeValidation h orig fld def (JStr s) st = st"
    by (auto simp: typeValidation_def typeMismatch_def parseInt_def parseFloat_def)
  from run nan mism str show ?thesis by blast
qed

theorem numeric_types_lenient_witness:
  "typeMismatch exampleHost Body TInt (JObj [(''toString'', JNum 1)])
   \<and> \<not> typeMismatch exampleHost Body TInt (JNum 7)
   \<and> typeValidation exampleHost Body ''price'' (plainField TDouble) (JStr ''abc'') \<lparr>errs = [], calls = []\<rparr>
       = \<lparr>errs = [], calls = []\<rparr>"
proof -
  have thrown: "parseInt exampleHost (JObj [(''toString'', JNum 1)]) = Inl TypeError"
    by (simp add: parseInt_def)
  have returned: "parseInt exampleHost (JNum 7) = Inr (parseIntString (numberToString exampleHost 7))"
    by (simp add: parseInt_def)
  have t: "fieldType (plainField TDouble) = TDouble"
    by (simp add: fieldType_def plainField_def)
  show ?thesis
    using numeric_types_lenient [of exampleHost Body "JObj [(''toString'', JNum 1)]"
        "plainField TDouble" "''price''" "''abc''" "\<lparr>errs = [], calls = []\<rparr>"]
      numeric_types_lenient [of exampleHost Body "JNum 7"
        "plainField TDouble" "''price''" "''abc''" "\<lparr>errs = [], calls = []\<rparr>"]
      thrown returned t
    by simp
qed



text \<open>
  Claim C10. For a field of declared type bool under origin \<^verbatim>\<open>query\<close> or \<^verbatim>\<open>params\<close>, the
  type check adds nothing when the value is not a string (a boolean, a number, an object,
  an array) or is the empty string: it changes the state exactly for the strings that are
  not empty and lower-case to neither \<^verbatim>\<open>"true"\<close> nor \<^verbatim>\<open>"false"\<close>.
\<close>

theorem bool_check_outside_body:
  "fieldType def = TBool \<Longrightarrow> orig \<in> {Query, Params} \<Longrightarrow>
   ((\<forall>s. v \<noteq> JStr s) \<or> v = JStr [] \<longrightarrow> typeValidation h orig fld def v st = st)
   \<and> (typeValidation h orig fld def v st \<noteq> st \<longleftrightarrow>
        (\<exists>s. v = JStr s \<and> s \<noteq> [] \<and> toLowerCase s \<notin> {''true'', ''false''}))"
proof -
  assume t: "fieldType def = TBool" and o: "orig \<in> {Query, Params}"
  have eq: "typeValidation h orig fld def v st =
      (if \<exists>s. v = JStr s \<and> s \<noteq> [] \<and> toLowerCase s \<notin> {''true'', ''false''}
       then st\<lparr>errs := addError (mkError orig fld def v (typeErrorMessage fld def)) (errs st)\<rparr>
       else st)"
    using t o by (cases v) (auto simp: typeValidation_def typeMismatch_def isEmpty_def)
  have a: "(\<forall>s. v \<noteq> JStr s) \<or> v = JStr [] \<longrightarrow> typeValidation h orig fld def v st = st"
    unfolding eq by auto
  have b: "typeValidation h orig fld def v st \<noteq> st \<longleftrightarrow>
        (\<exists>s. v = JStr s \<and> s \<noteq> [] \<and> toLowerCase s \<notin> {''true'', ''false''})"
    unfolding eq by (simp add: record_errs_neq mkError_def)
  from a b show ?thesis by blast
qed

theorem bool_check_outside_body_witness:
  "typeValidation exampleHost Query ''active'' (plainField TBool) (JBool True) \<lparr>errs = [], calls = []\<rparr>
     = \<lparr>errs = [], calls = []\<rparr>
   \<and> typeValidation exampleHost Params ''active'' (plainField TBool) (JNum 3) \<lparr>errs = [], calls = []\<rparr>
     = \<lparr>errs = [], calls = []\<rparr>
   \<and> typeValidation exampleHost Params ''active'' (plainField TBool) (JArr [JStr ''no'']) \<lparr>errs = [], calls = []\<rparr>
     = \<lparr>errs = [], calls = []\<rparr>
   \<and> typeValidation exampleHost Query ''active'' (plainField TBool) (JStr '''') \<lparr>errs = [], calls = []\<rparr>
     = \<lparr>errs = [], calls = []\<rparr>
   \<and> typeValidation exampleHost Query ''active'' (plainField TBool) (JStr ''no'') \<lparr>errs = [], calls = []\<rparr>
     \<noteq> \<lparr>errs = [], calls = []\<rparr>"
proof -
  have t: "fieldType (plainField TBool) = TBool"
    by (simp add: fieldType_def plainField_def)
  have q: "Query \<in> {Query, Params}" and p: "Params \<in> {Query, Params}"
    by simp_all
  show ?thesis
    using bool_check_outside_body [OF t q, of "JBool True" exampleHost "''active''" "\<lparr>errs = [], calls = []\<rparr>"]
      bool_check_outside_body [OF t p, of "JNum 3" exampleHost "''active''" "\<lparr>errs = [], calls = []\<rparr>"]
      bool_check_outside_body [OF t p, of "JArr [JStr ''no'']" exampleHost "''active''" "\<lparr>errs = [], calls = []\<rparr>"]
      bool_check_outside_body [OF t q, of "JStr ''''" exampleHost "''active''" "\<lparr>errs = [], calls = []\<rparr>"]
      bool_check_outside_body [OF t q, of "JStr ''no''" exampleHost "''active''" "\<lparr>errs = [], calls = []\<rparr>"]
    by (simp add: toLowerCase_def toLowerChar_def)
qed

section \<open>The whole run\<close>


lemma browseFields_returns_fields:
  "browseFields h orig (Some d) options st = Inr st' \<Longrightarrow>
   \<forall>(fld, def) \<in> set options. \<exists>ms. fieldMessages h orig d fld def = Inr ms"
proof (induction options arbitrary: st)
  case Nil
  then show ?case by simp
next
  case (Cons entry options)
  obtain fld "def" where entry: "entry = (fld, def)" by (cases entry)
  from Cons.prems entry obtain st1 where st1: "validateField h orig d fld def st = Inr st1"
    and rest: "browseFields h orig (Some d) options st1 = Inr st'"
    by (auto split: sum.splits)
  from st1 have "\<exists>ms. fieldMessages h orig d fld def = Inr ms"
    by (auto simp: validateField_eq split: sum.splits)
  with Cons.IH [OF rest] entry show ?case by simp
qed

lemma validate_Inr:
  "validate h request orig options = Inr res \<Longrightarrow>
   \<exists>st. browseFields h orig (bucket request orig) options \<lparr>errs = [], calls = []\<rparr> = Inr st
        \<and> errors res = errs st"
  by (auto simp: validate_def run_def toResult_def split: sum.splits)












text \<open>
  Claim C2. In every result of \<open>validate\<close> the errors carry pairwise different field
  names, so a field has at most one entry. Every field of the schema has a message list
  (\<open>fieldMessages\<close>): the required-failure message (if any), then the type-mismatch
  message (if any), then the messages of the failed rules in the order the rules are
  declared. When the schema's keys are pairwise different, as the keys of an object are,
  the error list is, in schema order, one entry for each field whose message list is not
  empty, carrying that list.
\<close>

theorem one_entry_per_field:
  assumes "validate h request orig options = Inr res"
  shows "distinct (map field (errors res))
         \<and> (\<forall>data. bucket request orig = Some data \<longrightarrow>
              (\<forall>(fld, def) \<in> set options. \<exists>ms. fieldMessages h orig data fld def = Inr ms)
              \<and> (distinct (map fst options) \<longrightarrow>
                   errors res = concat (map (fieldErrors h orig data) options)))"
proof -
  from assms obtain st where
    st: "browseFields h orig (bucket request orig) options \<lparr>errs = [], calls = []\<rparr> = Inr st"
    and res: "errors res = errs st"
    using validate_Inr by blast
  have "distinct (map field (errs st))"
    using browseFields_distinct_fields [OF st] by simp
  moreover have "\<forall>(fld, def) \<in> set options. \<exists>ms. fieldMessages h orig data fld def = Inr ms"
    if "bucket request orig = Some data" for data
    using browseFields_returns_fields [of h orig data options "\<lparr>errs = [], calls = []\<rparr>" st] st that
    by simp
  moreover have "errs st = concat (map (fieldErrors h orig data) options)"
    if "distinct (map fst options)" and "bucket request orig = Some data" for data
    using browseFields_errs [of h orig data options "\<lparr>errs = [], calls = []\<rparr>" st] st that by simp
  ultimately show ?thesis using res by simp
qed

theorem one_entry_per_field_witness:
  "concat (map (fieldErrors exampleHost Body [(''tags'', JStr [])]) tagsSchema) =
     [\<lparr>origin = Body, field = ''tags'', ftype = TArray, val = JStr [],
       message = [''The field `tags` is required'', ''The value of `tags` must be a valid array'',
                  ''too short'', ''`tags` value is not valid'', ''too long'']\<rparr>]"
proof -
  have run: "validate exampleHost (requestWithBody [(''tags'', JStr [])]) Body tagsSchema =
      Inr \<lparr>summary = ''The field `tags` is required; The value of `tags` must be a valid array; too short; `tags` value is not valid; too long'',
           errors = [\<lparr>origin = Body, field = ''tags'', ftype = TArray, val = JStr [],
                      message = [''The field `tags` is required'',
                                 ''The value of `tags` must be a valid array'',
                                 ''too short'', ''`tags` value is not valid'', ''too long'']\<rparr>]\<rparr>"
    by (simp add: model_defs sample_defs)
  have d: "distinct (map fst tagsSchema)"
    by (simp add: tagsSchema_def)
  have b: "bucket (requestWithBody [(''tags'', JStr [])]) Body = Some [(''tags'', JStr [])]"
    by (simp add: bucket_def requestWithBody_def)
  show ?thesis
    using one_entry_per_field [OF run] d b by simp
qed





section \<open>Absent and empty values\<close>

text \<open>
  An optional field whose value is the empty string or an empty array is not skipped: the
  type check runs and may fail, and the field's rules are called.
\<close>

theorem optional_empty_counterexample:
  "\<not> isRequired (optionalField TArray)
   \<and> run exampleHost (requestWithBody [(''tags'', JStr [])]) Body [(''tags'', optionalField TArray)] =
       Inr \<lparr>errs = [\<lparr>origin = Body, field = ''tags'', ftype = TArray, val = JStr [],
                      message = [''The value of `tags` must be a valid array'', ''too short'']\<rparr>],
            calls = [ValidatorCall ''tags'' 0 (JStr []) (declOf (optionalField TArray))
                       [(''tags'', JStr [])]]\<rparr>
   \<and> run exampleHost (requestWithBody [(''name'', JArr [])]) Body [(''name'', optionalField TString)] =
       Inr \<lparr>errs = [\<lparr>origin = Body, field = ''name'', ftype = TString, val = JArr [],
                      message = [''The value of `name` must be a valid string'', ''too short'']\<rparr>],
            calls = [ValidatorCall ''name'' 0 (JArr []) (declOf (optionalField TString))
                       [(''name'', JArr [])]]\<rparr>"
  by (simp add: model_defs sample_defs)

text \<open>
  Claim C4, as the code has it. For a field whose schema entry is not required: when its
  value is absent (\<^verbatim>\<open>undefined\<close> or \<^verbatim>\<open>null\<close>) the pass over the field leaves the state as it
  was, so no required error and no type error is recorded and no rule is called; when its
  value is the empty string or an empty array, no required error is recorded, and the type
  check and the rules run as for any other present value.
\<close>

theorem optional_absent_skipped:
  assumes "\<not> isRequired def"
  shows "(getField data fld = JUndefined \<or> getField data fld = JNull \<longrightarrow>
            validateField h orig data fld def st = Inr st)
         \<and> (getField data fld = JStr [] \<or> getField data fld = JArr [] \<longrightarrow>
              requiredValidation orig fld def (getField data fld) st = st
              \<and> validateField h orig data fld def st =
                  rulesLoop orig fld def (getField data fld) data 0 (rulesOf def)
                    (if typeMismatch h orig (fieldType def) (getField data fld)
                     then st\<lparr>errs := addError
                            (mkError orig fld def (getField data fld) (typeErrorMessage fld def)) (errs st)\<rparr>
                     else st))"
  using assms
  by (auto simp: validateField_def requiredValidation_def typeValidation_def rulesValidation_def
      isEmpty_def Let_def)

theorem optional_absent_skipped_witness:
  "validateField exampleHost Body [] ''tags'' (optionalField TArray) \<lparr>errs = [], calls = []\<rparr> =
     Inr \<lparr>errs = [], calls = []\<rparr>
   \<and> validateField exampleHost Body [(''tags'', JNull)] ''tags'' (optionalField TArray) \<lparr>errs = [], calls = []\<rparr> =
     Inr \<lparr>errs = [], calls = []\<rparr>
   \<and> requiredValidation Body ''tags'' (optionalField TArray) (JStr []) \<lparr>errs = [], calls = []\<rparr> =
     \<lparr>errs = [], calls = []\<rparr>"
proof -
  have opt: "\<not> isRequired (optionalField TArray)"
    by (simp add: isRequired_def optionalField_def)
  show ?thesis
    using optional_absent_skipped [OF opt, of "[]" "''tags''" exampleHost Body "\<lparr>errs = [], calls = []\<rparr>"]
      optional_absent_skipped [OF opt, of "[(''tags'', JNull)]" "''tags''" exampleHost Body "\<lparr>errs = [], calls = []\<rparr>"]
      optional_absent_skipped [OF opt, of "[(''tags'', JStr [])]" "''tags''" exampleHost Body "\<lparr>errs = [], calls = []\<rparr>"]
    by (simp add: getField_def objectPrototypeMethods_def)
qed

text \<open>
  A required field whose value is the empty string fails the required check and, its
  declared type being array, the type check as well: both messages are recorded.
\<close>

theorem required_and_type_counterexample:
  "validate exampleHost (requestWithBody [(''tags'', JStr [])]) Body [(''tags'', requiredField TArray)] =
     Inr \<lparr>summary = ''The field `tags` is required; The value of `tags` must be a valid array'',
          errors = [\<lparr>origin = Body, field = ''tags'', ftype = TArray, val = JStr [],
                     message = [''The field `tags` is required'',
                                ''The value of `tags` must be a valid array'']\<rparr>]\<rparr>"
  by (simp add: model_defs sample_defs)

text \<open>
  Claim C5, as the code has it. A required-failure message and a type-mismatch message are
  recorded together for a field only when its value is the empty string or an empty array:
  a required failure implies that the value is absent, the empty string or an empty array,
  and the type check is skipped for an absent value only. A type failure together with
  several rule failures for one field is possible.
\<close>

theorem required_and_type_messages:
  "(requiredValidation orig fld def v st \<noteq> st \<and> typeValidation h orig fld def v st' \<noteq> st' \<longrightarrow>
      v = JStr [] \<or> v = JArr [])
   \<and> (requiredValidation orig fld def v st \<noteq> st \<longrightarrow>
        v = JUndefined \<or> v = JNull \<or> v = JStr [] \<or> v = JArr [])
   \<and> (v = JUndefined \<or> v = JNull \<longrightarrow> typeValidation h orig fld def v st' = st')
   \<and> validate exampleHost (requestWithBody [(''tags'', JStr ''apple'')]) Body tagsSchema =
       Inr \<lparr>summary = ''The value of `tags` must be a valid array; too short; too long'',
            errors = [\<lparr>origin = Body, field = ''tags'', ftype = TArray, val = JStr ''apple'',
                       message = [''The value of `tags` must be a valid array'',
                                  ''too short'', ''too long'']\<rparr>]\<rparr>"
proof -
  have req: "requiredValidation orig fld def v st \<noteq> st \<longrightarrow>
        v = JUndefined \<or> v = JNull \<or> v = JStr [] \<or> v = JArr []"
    by (cases v) (auto simp: requiredValidation_def valueFilled_def split: if_splits)
  have skip: "v = JUndefined \<or> v = JNull \<longrightarrow> typeValidation h orig fld def v st' = st'"
    by (auto simp: typeValidation_def isEmpty_def)
  have both: "requiredValidation orig fld def v st \<noteq> st \<and> typeValidation h orig fld def v st' \<noteq> st' \<longrightarrow>
      v = JStr [] \<or> v = JArr []"
    using req skip by blast
  have ex: "validate exampleHost (requestWithBody [(''tags'', JStr ''apple'')]) Body tagsSchema =
       Inr \<lparr>summary = ''The value of `tags` must be a valid array; too short; too long'',
            errors = [\<lparr>origin = Body, field = ''tags'', ftype = TArray, val = JStr ''apple'',
                       message = [''The value of `tags` must be a valid array'',
                                  ''too short'', ''too long'']\<rparr>]\<rparr>"
    by (simp add: model_defs sample_defs)
  from both req skip ex show ?thesis by blast
qed

theorem required_and_type_messages_witness:
  "requiredValidation Body ''tags'' (requiredField TArray) (JStr []) \<lparr>errs = [], calls = []\<rparr>
     \<noteq> \<lparr>errs = [], calls = []\<rparr>
   \<and> typeValidation exampleHost Body ''tags'' (requiredField TArray) (JStr []) \<lparr>errs = [], calls = []\<rparr>
     \<noteq> \<lparr>errs = [], calls = []\<rparr>
   \<and> typeValidation exampleHost Body ''tags'' (requiredField TArray) JNull \<lparr>errs = [], calls = []\<rparr>
     = \<lparr>errs = [], calls = []\<rparr>"
proof -
  have a: "requiredValidation Body ''tags'' (requiredField TArray) (JStr []) \<lparr>errs = [], calls = []\<rparr>
     \<noteq> \<lparr>errs = [], calls = []\<rparr>"
    by (simp add: requiredValidation_def isRequired_def valueFilled_def requiredField_def)
  have b: "typeValidation exampleHost Body ''tags'' (requiredField TArray) (JStr []) \<lparr>errs = [], calls = []\<rparr>
     \<noteq> \<lparr>errs = [], calls = []\<rparr>"
    by (simp add: typeValidation_def isEmpty_def typeMismatch_def fieldType_def requiredField_def)
  show ?thesis
    using a b
      required_and_type_messages [of Body "''tags''" "requiredField TArray" "JStr []"
        "\<lparr>errs = [], calls = []\<rparr>" exampleHost "\<lparr>errs = [], calls = []\<rparr>"]
      required_and_type_messages [of Body "''tags''" "requiredField TArray" JNull
        "\<lparr>errs = [], calls = []\<rparr>" exampleHost "\<lparr>errs = [], calls = []\<rparr>"]
    by simp
qed

section \<open>Exceptions\<close>

lemma ruleMessages_Inl:
  "ruleMessages fld v d data rs = Inl e \<Longrightarrow>
   \<exists>rule \<in> set rs. validator rule v d data = Inl e
      \<or> (validator rule v d data = Inr False \<and> ruleErrorMessage rule fld v d data = Inl e)"
  by (induction rs) (auto split: sum.splits if_splits)

lemma fieldMessages_Inl:
  "fieldMessages h orig data fld def = Inl e \<Longrightarrow>
   \<exists>rule \<in> set (rulesOf def).
      validator rule (getField data fld) (declOf def) data = Inl e
      \<or> (validator rule (getField data fld) (declOf def) data = Inr False
          \<and> ruleErrorMessage rule fld (getField data fld) (declOf def) data = Inl e)"
  by (auto simp: fieldMessages_def Let_def split: sum.splits if_splits dest: ruleMessages_Inl)

lemma browseFields_Inl:
  "browseFields h orig (Some d) options st = Inl e \<Longrightarrow>
   \<exists>(fld, def) \<in> set options. fieldMessages h orig d fld def = Inl e"
proof (induction options arbitrary: st)
  case Nil
  then show ?case by simp
next
  case (Cons entry options)
  obtain fld "def" where entry: "entry = (fld, def)" by (cases entry)
  show ?case
  proof (cases "validateField h orig d fld def st")
    case (Inl e')
    with Cons.prems entry have "e' = e" by simp
    with Inl have "fieldMessages h orig d fld def = Inl e"
      by (auto simp: validateField_eq split: sum.splits)
    with entry show ?thesis by auto
  next
    case (Inr st1)
    with Cons.prems entry have "browseFields h orig (Some d) options st1 = Inl e" by simp
    from Cons.IH [OF this] show ?thesis by auto
  qed
qed

text \<open>
  Two runs that raise although no rule predicate throws: the only rule's predicate returns
  false and its message producer throws; and the schema has no rule at all, but the
  request has no body to read the field from.
\<close>

theorem raised_exceptions_counterexample:
  "validate exampleHost (requestWithBody [(''name'', JStr ''x'')]) Body [(''name'', brokenField)] =
     Inl (Thrown (JStr ''boom''))
   \<and> validator brokenMessageRule (JStr ''x'') (declOf brokenField) [(''name'', JStr ''x'')] = Inr False
   \<and> rulesOf brokenField = [brokenMessageRule]
   \<and> validate exampleHost (requestWithQuery []) Body [(''name'', plainField TString)] = Inl TypeError
   \<and> rulesOf (plainField TString) = []"
  by (simp add: model_defs sample_defs)

text \<open>
  Claim C8, as the code has it. \<open>validate\<close> raises to its caller only when the bucket
  \<^verbatim>\<open>request[origin]\<close> is undefined or null while the schema declares a field, or when a rule
  predicate throws, or when the message producer of a failed rule throws; the exception
  raised is that one. When the bucket is an object and neither the rule predicates nor the
  message producers throw on the field values, \<open>validate\<close> returns a result. An exception
  thrown by the date construction or by the number parse of a present value is caught and
  recorded as the type error of that field.
\<close>

theorem raised_exceptions:
  "(validate h request orig options = Inl e \<longrightarrow>
      (bucket request orig = None \<and> options \<noteq> [] \<and> e = TypeError)
      \<or> (\<exists>data fld def rule.
            bucket request orig = Some data \<and> (fld, def) \<in> set options \<and> rule \<in> set (rulesOf def)
            \<and> (validator rule (getField data fld) (declOf def) data = Inl e
                \<or> (validator rule (getField data fld) (declOf def) data = Inr False
                    \<and> ruleErrorMessage rule fld (getField data fld) (declOf def) data = Inl e))))
   \<and> (bucket request orig = Some data
       \<and> (\<forall>(fld, def) \<in> set options. \<forall>rule \<in> set (rulesOf def).
             (\<exists>b. validator rule (getField data fld) (declOf def) data = Inr b)
             \<and> (\<exists>m. ruleErrorMessage rule fld (getField data fld) (declOf def) data = Inr m))
       \<longrightarrow> (\<exists>res. validate h request orig options = Inr res))
   \<and> (\<not> isEmpty v \<and> fieldType def = TDate \<and> newDate h v = Inl e' \<longrightarrow>
        typeValidation h orig fld def v st =
          st\<lparr>errs := addError (mkError orig fld def v (typeErrorMessage fld def)) (errs st)\<rparr>)
   \<and> (\<not> isEmpty v \<and> fieldType def \<in> {TInt, TLong, TTimestamp} \<and> parseInt h v = Inl e' \<longrightarrow>
        typeValidation h orig fld def v st =
          st\<lparr>errs := addError (mkError orig fld def v (typeErrorMessage fld def)) (errs st)\<rparr>)
   \<and> (\<not> isEmpty v \<and> fieldType def \<in> {TDouble, TDecimal} \<and> parseFloat h v = Inl e' \<longrightarrow>
        typeValidation h orig fld def v st =
          st\<lparr>errs := addError (mkError orig fld def v (typeErrorMessage fld def)) (errs st)\<rparr>)"
proof -
  have cause: "(bucket request orig = None \<and> options \<noteq> [] \<and> e = TypeError)
      \<or> (\<exists>data fld def rule.
            bucket request orig = Some data \<and> (fld, def) \<in> set options \<and> rule \<in> set (rulesOf def)
            \<and> (validator rule (getField data fld) (declOf def) data = Inl e
                \<or> (validator rule (getField data fld) (declOf def) data = Inr False
                    \<and> ruleErrorMessage rule fld (getField data fld) (declOf def) data = Inl e)))"
    if raised: "validate h request orig options = Inl e" for e
  proof (cases "bucket request orig")
    case None
    with raised show ?thesis
      by (auto simp: validate_def run_def browseFields_None split: sum.splits if_splits)
  next
    case (Some d)
    with raised have "browseFields h orig (Some d) options \<lparr>errs = [], calls = []\<rparr> = Inl e"
      by (auto simp: validate_def run_def split: sum.splits)
    from browseFields_Inl [OF this] obtain fld d' where
      entry: "(fld, d') \<in> set options" and fm: "fieldMessages h orig d fld d' = Inl e"
      by auto
    from fieldMessages_Inl [OF fm] entry Some show ?thesis by blast
  qed
  have total: "\<exists>res. validate h request orig options = Inr res"
    if b: "bucket request orig = Some data"
      and ok: "\<forall>(fld, def) \<in> set options. \<forall>rule \<in> set (rulesOf def).
             (\<exists>b. validator rule (getField data fld) (declOf def) data = Inr b)
             \<and> (\<exists>m. ruleErrorMessage rule fld (getField data fld) (declOf def) data = Inr m)"
  proof (cases "validate h request orig options")
    case (Inl x)
    from cause [OF Inl] b ok show ?thesis by fastforce
  next
    case (Inr res)
    then show ?thesis by blast
  qed
  have date: "\<not> isEmpty v \<and> fieldType def = TDate \<and> newDate h v = Inl e' \<longrightarrow>
        typeValidation h orig fld def v st =
          st\<lparr>errs := addError (mkError orig fld def v (typeErrorMessage fld def)) (errs st)\<rparr>"
    by (simp add: typeValidation_def typeMismatch_def)
  have int: "\<not> isEmpty v \<and> fieldType def \<in> {TInt, TLong, TTimestamp} \<and> parseInt h v = Inl e' \<longrightarrow>
        typeValidation h orig fld def v st =
          st\<lparr>errs := addError (mkError orig fld def v (typeErrorMessage fld def)) (errs st)\<rparr>"
    by (auto simp: typeValidation_def typeMismatch_def)
  have float: "\<not> isEmpty v \<and> fieldType def \<in> {TDouble, TDecimal} \<and> parseFloat h v = Inl e' \<longrightarrow>
        typeValidation h orig fld def v st =
          st\<lparr>errs := addError (mkError orig fld def v (typeErrorMessage fld def)) (errs st)\<rparr>"
    by (auto simp: typeValidation_def typeMismatch_def)
  from cause total date int float show ?thesis by blast
qed

theorem raised_exceptions_witness:
  "(\<exists>res. validate exampleHost (requestWithBody [(''email'', JStr ''banana'')]) Body emailSchema = Inr res)
   \<and> typeValidation exampleHost Body ''when'' (plainField TDate) (JObj [(''toString'', JNum 1)])
        \<lparr>errs = [], calls = []\<rparr> =
      \<lparr>errs = [\<lparr>origin = Body, field = ''when'', ftype = TDate, val = JObj [(''toString'', JNum 1)],
                 message = [''The value of `when` must be a valid date'']\<rparr>], calls = []\<rparr>
   \<and> typeValidation exampleHost Body ''when'' (plainField TLong) (JObj [(''toString'', JNum 1)])
        \<lparr>errs = [], calls = []\<rparr> =
      \<lparr>errs = [\<lparr>origin = Body, field = ''when'', ftype = TLong, val = JObj [(''toString'', JNum 1)],
                 message = [''The value of `when` must be a valid long'']\<rparr>], calls = []\<rparr>"
proof -
  let ?data = "[(''email'', JStr ''banana'')]"
  let ?v = "JObj [(''toString'', JNum 1)]"
  have b: "bucket (requestWithBody ?data) Body = Some ?data"
    by (simp add: bucket_def requestWithBody_def)
  have ok: "\<forall>(fld, def) \<in> set emailSchema. \<forall>rule \<in> set (rulesOf def).
             (\<exists>b. validator rule (getField ?data fld) (declOf def) ?data = Inr b)
             \<and> (\<exists>m. ruleErrorMessage rule fld (getField ?data fld) (declOf def) ?data = Inr m)"
    by (simp add: emailSchema_def rulesOf_def startsWithRule_def ruleErrorMessage_def)
  have d: "\<not> isEmpty ?v \<and> fieldType (plainField TDate) = TDate \<and> newDate exampleHost ?v = Inl TypeError"
    by (simp add: isEmpty_def fieldType_def plainField_def exampleHost_def)
  have l: "\<not> isEmpty ?v \<and> fieldType (plainField TLong) \<in> {TInt, TLong, TTimestamp}
            \<and> parseInt exampleHost ?v = Inl TypeError"
    by (simp add: isEmpty_def fieldType_def plainField_def parseInt_def)
  show ?thesis
    using b ok d l
      raised_exceptions [of exampleHost "requestWithBody ?data" Body emailSchema _ ?data ?v
        "plainField TDate" TypeError "''when''" "\<lparr>errs = [], calls = []\<rparr>"]
      raised_exceptions [of exampleHost "requestWithBody ?data" Body emailSchema _ ?data ?v
        "plainField TLong" TypeError "''when''" "\<lparr>errs = [], calls = []\<rparr>"]
    by (simp add: mkError_def typeErrorMessage_def fieldType_def fieldTypeName_def plainField_def)
qed

end
